theory Spec2Isabelle
  imports Main
begin

section \<open>The declarative route system: data model\<close>

text \<open>
  The embedding follows the class \<open>DeclarativeRouter\<close> of the declarative route
  system, whose handlers are function references. The Express and Hono generators emit
  a variant of the class into scaffolded projects: its \<open>buildMiddlewareChain\<close> is the
  same text, its handlers are names resolved in a controller registry. The five HTTP
  verbs of the constant \<open>METHODS\<close> are a datatype; \<open>methodName\<close> gives the string
  each one stands for.
\<close>

datatype HttpMethod = GET | POST | PUT | DELETE | PATCH

fun methodName :: "HttpMethod \<Rightarrow> string" where
  "methodName GET = ''GET''"
| "methodName POST = ''POST''"
| "methodName PUT = ''PUT''"
| "methodName DELETE = ''DELETE''"
| "methodName PATCH = ''PATCH''"

text \<open>
  A function object is known by its identity only. A route's handler is declared
  \<open>Function\<close>, but \<open>validate\<close> tests \<open>typeof route.handler\<close> at run time, so the
  value of the field is either a function or something else.
\<close>

type_synonym fnref = nat

datatype jsvalue = Function fnref | NotAFunction

text \<open>
  The optional fields \<open>enabled?\<close>, \<open>disabled?\<close>, \<open>roles?\<close> and \<open>excludeRoles?\<close> are
  options: \<open>None\<close> is \<open>undefined\<close>, and \<open>Some []\<close> is an empty array, which is truthy.
\<close>

record RouteDefinition =
  "method" :: HttpMethod
  path :: string
  handler :: jsvalue
  enabled :: "string list option"
  disabled :: "string list option"
  roles :: "string list option"
  excludeRoles :: "string list option"

record RouteConfig =
  defaultMiddlewares :: "string list"
  defaultRoles :: "string list"
  routes :: "RouteDefinition list"

text \<open>
  The object state: the private \<open>Map<string, Function>\<close> and the configuration. Only
  \<open>set\<close>, \<open>get\<close> and \<open>has\<close> are used on the map, so it is a partial function.
\<close>

record DeclarativeRouter =
  middlewareRegistry :: "string \<rightharpoonup> fnref"
  config :: RouteConfig

definition newRouter :: "RouteConfig \<Rightarrow> DeclarativeRouter" where
  "newRouter cfg = \<lparr>middlewareRegistry = Map.empty, config = cfg\<rparr>"

definition registerMiddleware :: "string \<Rightarrow> fnref \<Rightarrow> DeclarativeRouter \<Rightarrow> DeclarativeRouter" where
  "registerMiddleware name middleware this =
     this\<lparr>middlewareRegistry := (middlewareRegistry this)(name \<mapsto> middleware)\<rparr>"

section \<open>The chain builder\<close>

text \<open>\<open>Array.prototype.includes\<close> (the name is an Isabelle keyword) on an array of strings.\<close>

fun arrayIncludes :: "string list \<Rightarrow> string \<Rightarrow> bool" where
  "arrayIncludes [] x = False"
| "arrayIncludes (y # ys) x = (y = x \<or> arrayIncludes ys x)"

text \<open>
  The value of the local variable \<open>middlewares\<close> of \<open>buildMiddlewareChain\<close> when the
  resolution loop starts: the copy of the defaults, filtered when \<open>route.disabled\<close> is
  present, extended when \<open>route.enabled\<close> is present.
\<close>

definition chainMiddlewares :: "RouteConfig \<Rightarrow> RouteDefinition \<Rightarrow> string list" where
  "chainMiddlewares cfg route =
     (let middlewares = defaultMiddlewares cfg;
          middlewares = (case disabled route of
                           Some d \<Rightarrow> filter (\<lambda>m. \<not> arrayIncludes d m) middlewares
                         | None \<Rightarrow> middlewares);
          middlewares = (case enabled route of
                           Some e \<Rightarrow> middlewares @ e
                         | None \<Rightarrow> middlewares)
      in middlewares)"

text \<open>
  The value of the local variable \<open>roles\<close> at the same point: the copy of the default
  roles, filtered when \<open>route.excludeRoles\<close> is present, replaced when \<open>route.roles\<close>
  is present.
\<close>

definition chainRoles :: "RouteConfig \<Rightarrow> RouteDefinition \<Rightarrow> string list" where
  "chainRoles cfg route =
     (let rs = defaultRoles cfg;
          rs = (case excludeRoles route of
                  Some x \<Rightarrow> filter (\<lambda>r. \<not> arrayIncludes x r) rs
                | None \<Rightarrow> rs);
          rs = (case roles route of
                  Some given \<Rightarrow> given
                | None \<Rightarrow> rs)
      in rs)"

text \<open>
  An entry of a chain is a registered function, or what the registered \<open>roleCheck\<close>
  factory returned when called with a role list. The only exception of the class is
  \<open>new Error(message)\<close>.
\<close>

datatype middlewareFn = Resolved fnref | FactoryResult fnref "string list"

datatype error = Error string

definition notRegistered :: "string \<Rightarrow> string" where
  "notRegistered name = ''Middleware '' @ [CHR 0x27] @ name @ [CHR 0x27] @ '' not registered''"

text \<open>The loop over \<open>middlewares\<close>: the first name the registry lacks throws.\<close>

fun resolveAll :: "(string \<rightharpoonup> fnref) \<Rightarrow> string list \<Rightarrow> middlewareFn list \<Rightarrow> error + middlewareFn list" where
  "resolveAll reg [] chain = Inr chain"
| "resolveAll reg (middlewareName # rest) chain =
     (case reg middlewareName of
        None \<Rightarrow> Inl (Error (notRegistered middlewareName))
      | Some middleware \<Rightarrow> resolveAll reg rest (chain @ [Resolved middleware]))"

definition buildMiddlewareChain :: "DeclarativeRouter \<Rightarrow> RouteDefinition \<Rightarrow> error + middlewareFn list" where
  "buildMiddlewareChain this route =
     (let middlewares = chainMiddlewares (config this) route;
          rs = chainRoles (config this) route
      in case resolveAll (middlewareRegistry this) middlewares [] of
           Inl e \<Rightarrow> Inl e
         | Inr chain \<Rightarrow>
             if length rs > 0
             then (case middlewareRegistry this ''roleCheck'' of
                     Some roleMiddleware \<Rightarrow> Inr (chain @ [FactoryResult roleMiddleware rs])
                   | None \<Rightarrow> Inr chain)
             else Inr chain)"

section \<open>Applying the routes to a routing surface\<close>

text \<open>
  \<open>toLowerCase\<close> on the ASCII letters, which is all the verbs of \<open>METHODS\<close> contain.
\<close>

definition toLowerChar :: "char \<Rightarrow> char" where
  "toLowerChar c =
     (let n = (of_char c :: nat) in if 65 \<le> n \<and> n \<le> 90 then char_of (n + 32) else c)"

definition toLowerCase :: "string \<Rightarrow> string" where
  "toLowerCase s = map toLowerChar s"

text \<open>
  The routing surface is a recording one: it keeps, in order, every call
  \<open>router[method](route.path, ...middlewares, route.handler)\<close> made on it. The
  surface is an object passed by reference; \<open>objectId\<close> stands for its identity.
\<close>

record routerCall =
  verb :: string
  pathArg :: string
  middlewareArgs :: "middlewareFn list"
  handlerArg :: jsvalue

record router =
  objectId :: nat
  calls :: "routerCall list"

definition callFor :: "RouteDefinition \<Rightarrow> middlewareFn list \<Rightarrow> routerCall" where
  "callFor route middlewares =
     \<lparr>verb = toLowerCase (methodName (method route)), pathArg = path route,
      middlewareArgs = middlewares, handlerArg = handler route\<rparr>"

text \<open>
  The state of the loop of \<open>applyToExpress\<close> and \<open>applyToHono\<close>: the routing surface,
  and a log of the routes the chain builder has been called for (a ghost field: the
  program does not keep it, the claims about the number of calls read it).
\<close>

record applyState =
  surface :: router
  chainBuilderCalls :: "RouteDefinition list"

fun applyRoutes :: "DeclarativeRouter \<Rightarrow> RouteDefinition list \<Rightarrow> applyState \<Rightarrow> error option \<times> applyState" where
  "applyRoutes this [] st = (None, st)"
| "applyRoutes this (route # rest) st =
     (let st1 = st\<lparr>chainBuilderCalls := chainBuilderCalls st @ [route]\<rparr> in
      case buildMiddlewareChain this route of
        Inl e \<Rightarrow> (Some e, st1)
      | Inr middlewares \<Rightarrow>
          applyRoutes this rest
            (st1\<lparr>surface := (surface st1)\<lparr>calls := calls (surface st1) @ [callFor route middlewares]\<rparr>\<rparr>))"

text \<open>
  The result of an apply: what it returned (\<open>Inr\<close> the routing surface) or threw
  (\<open>Inl\<close>), and the state it left behind.
\<close>

definition applyToExpress :: "DeclarativeRouter \<Rightarrow> router \<Rightarrow> (error + router) \<times> applyState" where
  "applyToExpress this r =
     (case applyRoutes this (routes (config this)) \<lparr>surface = r, chainBuilderCalls = []\<rparr> of
        (None, st) \<Rightarrow> (Inr (surface st), st)
      | (Some e, st) \<Rightarrow> (Inl e, st))"

definition applyToHono :: "DeclarativeRouter \<Rightarrow> router \<Rightarrow> (error + router) \<times> applyState" where
  "applyToHono this app =
     (case applyRoutes this (routes (config this)) \<lparr>surface = app, chainBuilderCalls = []\<rparr> of
        (None, st) \<Rightarrow> (Inr (surface st), st)
      | (Some e, st) \<Rightarrow> (Inl e, st))"

section \<open>Validation\<close>

text \<open>\<open>typeof v === 'function'\<close>, and \<open>xs || []\<close> for an optional array.\<close>

fun isFunction :: "jsvalue \<Rightarrow> bool" where
  "isFunction (Function f) = True"
| "isFunction NotAFunction = False"

fun orEmpty :: "string list option \<Rightarrow> string list" where
  "orEmpty (Some xs) = xs"
| "orEmpty None = []"

definition handlerError :: "RouteDefinition \<Rightarrow> string" where
  "handlerError route =
     ''Route '' @ methodName (method route) @ '' '' @ path route @ '': Handler is not a function''"

definition middlewareError :: "RouteDefinition \<Rightarrow> string \<Rightarrow> string" where
  "middlewareError route mw =
     ''Route '' @ methodName (method route) @ '' '' @ path route @ '': '' @ notRegistered mw"

text \<open>The inner loop of \<open>validate\<close>, over \<open>allMiddlewares\<close>.\<close>

fun checkMiddlewares :: "(string \<rightharpoonup> fnref) \<Rightarrow> RouteDefinition \<Rightarrow> string list \<Rightarrow> string list \<Rightarrow> string list" where
  "checkMiddlewares reg route [] errs = errs"
| "checkMiddlewares reg route (mw # rest) errs =
     checkMiddlewares reg route rest
       (if reg mw = None then errs @ [middlewareError route mw] else errs)"

text \<open>The outer loop, over \<open>this.config.routes\<close>.\<close>

fun validateRoutes :: "DeclarativeRouter \<Rightarrow> RouteDefinition list \<Rightarrow> string list \<Rightarrow> string list" where
  "validateRoutes this [] errs = errs"
| "validateRoutes this (route # rest) errs =
     (let errs1 = (if \<not> isFunction (handler route)
                   then errs @ [handlerError route]
                   else errs);
          allMiddlewares = defaultMiddlewares (config this) @ orEmpty (enabled route)
      in validateRoutes this rest
           (checkMiddlewares (middlewareRegistry this) route allMiddlewares errs1))"

record validation =
  valid :: bool
  errors :: "string list"

definition validate :: "DeclarativeRouter \<Rightarrow> validation" where
  "validate this =
     (let errs = validateRoutes this (routes (config this)) []
      in \<lparr>valid = (length errs = 0), errors = errs\<rparr>)"

text \<open>
  What the specification says one route contributes to the report: first the error for
  a handler that is not a function, then one error for each reference, default or
  extra, that the registry does not resolve. The function is compared with the loops
  above; it is not part of the program.
\<close>

definition routeErrors :: "DeclarativeRouter \<Rightarrow> RouteDefinition \<Rightarrow> string list" where
  "routeErrors this route =
     (if isFunction (handler route) then [] else [handlerError route])
     @ map (middlewareError route)
         (filter (\<lambda>mw. middlewareRegistry this mw = None)
            (defaultMiddlewares (config this) @ orEmpty (enabled route)))"

section \<open>Example configurations\<close>

text \<open>
  The end-to-end scenario of the specification: the defaults are \<open>[logging]\<close>, the
  route \<open>GET /public\<close> disables \<open>logging\<close>, the route \<open>POST /admin\<close> asks for the
  role \<open>admin\<close> and the extra \<open>auth\<close>; the registry holds \<open>logging\<close> and \<open>auth\<close>.
\<close>

definition publicRoute :: RouteDefinition where
  "publicRoute =
     \<lparr>method = GET, path = ''/public'', handler = Function 10, enabled = None,
      disabled = Some [''logging''], roles = None, excludeRoles = None\<rparr>"

definition adminRoute :: RouteDefinition where
  "adminRoute =
     \<lparr>method = POST, path = ''/admin'', handler = Function 11, enabled = Some [''auth''],
      disabled = None, roles = Some [''admin''], excludeRoles = None\<rparr>"

definition scenarioConfig :: RouteConfig where
  "scenarioConfig =
     \<lparr>defaultMiddlewares = [''logging''], defaultRoles = [], routes = [publicRoute, adminRoute]\<rparr>"

definition scenarioRouter :: DeclarativeRouter where
  "scenarioRouter =
     registerMiddleware ''auth'' 2 (registerMiddleware ''logging'' 1 (newRouter scenarioConfig))"

text \<open>The same scenario with the \<open>roleCheck\<close> factory registered too.\<close>

definition guardedRouter :: DeclarativeRouter where
  "guardedRouter = registerMiddleware ''roleCheck'' 3 scenarioRouter"

text \<open>The same configuration when nothing was registered.\<close>

definition bareRouter :: DeclarativeRouter where
  "bareRouter = newRouter scenarioConfig"

text \<open>A single public route over the same defaults, and nothing registered.\<close>

definition publicOnlyRouter :: DeclarativeRouter where
  "publicOnlyRouter =
     newRouter \<lparr>defaultMiddlewares = [''logging''], defaultRoles = [], routes = [publicRoute]\<rparr>"

text \<open>An empty recording surface.\<close>

definition freshSurface :: router where
  "freshSurface = \<lparr>objectId = 0, calls = []\<rparr>"

text \<open>Three routes, each with one extra middleware that nobody registered.\<close>

definition extraRoute :: "string \<Rightarrow> string \<Rightarrow> RouteDefinition" where
  "extraRoute p mw =
     \<lparr>method = GET, path = p, handler = Function 20, enabled = Some [mw],
      disabled = None, roles = None, excludeRoles = None\<rparr>"

definition threeMissingRouter :: DeclarativeRouter where
  "threeMissingRouter =
     newRouter \<lparr>defaultMiddlewares = [], defaultRoles = [],
                routes = [extraRoute ''/a'' ''cache'', extraRoute ''/b'' ''audit'',
                          extraRoute ''/c'' ''limit'']\<rparr>"

text \<open>
  Routes for the rules on names and roles, over the defaults \<open>[A, B]\<close> and the
  default role \<open>admin\<close>, with every name and the \<open>roleCheck\<close> factory registered.
\<close>

definition plainRoute :: RouteDefinition where
  "plainRoute =
     \<lparr>method = GET, path = ''/plain'', handler = Function 30, enabled = None,
      disabled = None, roles = None, excludeRoles = None\<rparr>"

definition swapRoute :: RouteDefinition where
  "swapRoute =
     \<lparr>method = PUT, path = ''/swap'', handler = Function 31, enabled = Some [''X'', ''Y''],
      disabled = Some [''A''], roles = None, excludeRoles = None\<rparr>"

definition repeatRoute :: RouteDefinition where
  "repeatRoute =
     \<lparr>method = PATCH, path = ''/repeat'', handler = Function 32, enabled = Some [''A''],
      disabled = None, roles = None, excludeRoles = None\<rparr>"

definition reenableRoute :: RouteDefinition where
  "reenableRoute =
     \<lparr>method = DELETE, path = ''/reenable'', handler = Function 33, enabled = Some [''A''],
      disabled = Some [''A''], roles = None, excludeRoles = None\<rparr>"

definition editorRoute :: RouteDefinition where
  "editorRoute =
     \<lparr>method = POST, path = ''/edit'', handler = Function 34, enabled = None,
      disabled = None, roles = Some [''editor''], excludeRoles = Some [''admin'']\<rparr>"

definition openRoute :: RouteDefinition where
  "openRoute =
     \<lparr>method = GET, path = ''/open'', handler = Function 35, enabled = None,
      disabled = None, roles = Some [], excludeRoles = None\<rparr>"

definition abConfig :: RouteConfig where
  "abConfig =
     \<lparr>defaultMiddlewares = [''A'', ''B''], defaultRoles = [''admin''],
      routes = [plainRoute, swapRoute, repeatRoute, reenableRoute, editorRoute, openRoute]\<rparr>"

definition abRouter :: DeclarativeRouter where
  "abRouter =
     registerMiddleware ''roleCheck'' 9
       (registerMiddleware ''Y'' 4
          (registerMiddleware ''X'' 3
             (registerMiddleware ''B'' 2
                (registerMiddleware ''A'' 1 (newRouter abConfig)))))"

section \<open>Facts about the loops\<close>

subsection \<open>Names and roles\<close>

lemmas routerDefs = newRouter_def registerMiddleware_def

lemma arrayIncludes_iff: "arrayIncludes xs x \<longleftrightarrow> x \<in> set xs"
  by (induction xs) auto

lemma chainMiddlewares_eq:
  "chainMiddlewares cfg route =
     filter (\<lambda>m. m \<notin> set (orEmpty (disabled route))) (defaultMiddlewares cfg)
       @ orEmpty (enabled route)"
  by (simp add: chainMiddlewares_def Let_def arrayIncludes_iff split: option.splits)

lemma chainRoles_eq:
  "chainRoles cfg route =
     (case roles route of
        Some given \<Rightarrow> given
      | None \<Rightarrow> filter (\<lambda>r. r \<notin> set (orEmpty (excludeRoles route))) (defaultRoles cfg))"
  by (simp add: chainRoles_def Let_def arrayIncludes_iff split: option.splits)

lemma count_list_filter:
  "count_list (filter P xs) x = (if P x then count_list xs x else 0)"
  by (induction xs) auto

subsection \<open>Resolving the names\<close>

lemma resolveAll_ok:
  "map reg ns = map Some fs \<Longrightarrow> resolveAll reg ns chain = Inr (chain @ map Resolved fs)"
proof (induction ns arbitrary: fs chain)
  case Nil
  then show ?case by simp
next
  case (Cons n ns)
  then obtain f fs' where fs: "fs = f # fs'" by (cases fs) auto
  with Cons.prems have "reg n = Some f" and "map reg ns = map Some fs'" by auto
  with Cons.IH [of fs' "chain @ [Resolved f]"] fs show ?case by simp
qed

lemma resolveAll_fail:
  "map reg pre = map Some fs \<Longrightarrow> reg n = None \<Longrightarrow>
   resolveAll reg (pre @ n # post) chain = Inl (Error (notRegistered n))"
proof (induction pre arbitrary: fs chain)
  case Nil
  then show ?case by simp
next
  case (Cons p pre)
  then obtain f fs' where fs: "fs = f # fs'" by (cases fs) auto
  with Cons.prems have "reg p = Some f" and "map reg pre = map Some fs'" by auto
  with Cons.IH [of fs' "chain @ [Resolved f]"] Cons.prems(2) show ?case by simp
qed

lemma resolveAll_Inl:
  "resolveAll reg ns acc = Inl e \<Longrightarrow> \<exists>n\<in>set ns. reg n = None \<and> e = Error (notRegistered n)"
  by (induction ns arbitrary: acc) (auto split: option.splits)

lemma all_registered_resolves:
  "\<forall>n\<in>set ns. reg n \<noteq> None \<Longrightarrow> \<exists>fs. map reg ns = map Some fs"
proof (induction ns)
  case Nil
  then show ?case by simp
next
  case (Cons n ns)
  then obtain fs where "map reg ns = map Some fs" by auto
  moreover from Cons.prems obtain f where "reg n = Some f" by auto
  ultimately have "map reg (n # ns) = map Some (f # fs)" by simp
  then show ?case by blast
qed

lemma first_unregistered:
  "n \<in> set ns \<Longrightarrow> reg n = None \<Longrightarrow>
   \<exists>pre m post fs. ns = pre @ m # post \<and> map reg pre = map Some fs \<and> reg m = None"
proof (induction ns)
  case Nil
  then show ?case by simp
next
  case (Cons a ns)
  show ?case
  proof (cases "reg a")
    case None
    then have "a # ns = [] @ a # ns \<and> map reg [] = map Some [] \<and> reg a = None" by simp
    then show ?thesis by blast
  next
    case (Some f)
    with Cons.prems have "n \<in> set ns" by auto
    with Cons.IH Cons.prems(2) obtain pre m post fs
      where "ns = pre @ m # post" "map reg pre = map Some fs" "reg m = None" by blast
    with Some have "a # ns = (a # pre) @ m # post \<and> map reg (a # pre) = map Some (f # fs) \<and> reg m = None"
      by simp
    then show ?thesis by blast
  qed
qed

lemma buildMiddlewareChain_resolved:
  assumes "map (middlewareRegistry this) (chainMiddlewares (config this) route) = map Some fs"
  shows "buildMiddlewareChain this route =
           Inr (map Resolved fs @
                (if chainRoles (config this) route = [] then []
                 else case middlewareRegistry this ''roleCheck'' of
                        Some f \<Rightarrow> [FactoryResult f (chainRoles (config this) route)]
                      | None \<Rightarrow> []))"
  using resolveAll_ok [OF assms, of "[]"]
  by (simp add: buildMiddlewareChain_def Let_def split: option.splits)

lemma buildMiddlewareChain_throws:
  assumes "chainMiddlewares (config this) route = pre @ n # post"
    and "map (middlewareRegistry this) pre = map Some fs"
    and "middlewareRegistry this n = None"
  shows "buildMiddlewareChain this route = Inl (Error (notRegistered n))"
  using resolveAll_fail [OF assms(2,3), of post "[]"] assms(1)
  by (simp add: buildMiddlewareChain_def Let_def)

lemma buildMiddlewareChain_Inl:
  assumes "buildMiddlewareChain this route = Inl e"
  shows "\<exists>n\<in>set (chainMiddlewares (config this) route).
           middlewareRegistry this n = None \<and> e = Error (notRegistered n)"
proof (cases "resolveAll (middlewareRegistry this) (chainMiddlewares (config this) route) []")
  case (Inl e')
  with assms have "e' = e" by (simp add: buildMiddlewareChain_def Let_def)
  with Inl resolveAll_Inl show ?thesis by blast
next
  case (Inr chain)
  with assms show ?thesis
    by (simp add: buildMiddlewareChain_def Let_def split: if_splits option.splits)
qed

lemma buildMiddlewareChain_Inl_iff:
  "(\<exists>e. buildMiddlewareChain this route = Inl e) \<longleftrightarrow>
     (\<exists>n\<in>set (chainMiddlewares (config this) route). middlewareRegistry this n = None)"
proof
  assume "\<exists>e. buildMiddlewareChain this route = Inl e"
  then obtain e where e: "buildMiddlewareChain this route = Inl e" ..
  show "\<exists>n\<in>set (chainMiddlewares (config this) route). middlewareRegistry this n = None"
  proof (rule ccontr)
    assume "\<not> ?thesis"
    then have "\<forall>n\<in>set (chainMiddlewares (config this) route). middlewareRegistry this n \<noteq> None"
      by simp
    from all_registered_resolves [OF this] obtain fs
      where "map (middlewareRegistry this) (chainMiddlewares (config this) route) = map Some fs" ..
    from buildMiddlewareChain_resolved [OF this] e show False by simp
  qed
next
  assume "\<exists>n\<in>set (chainMiddlewares (config this) route). middlewareRegistry this n = None"
  then obtain n where n: "n \<in> set (chainMiddlewares (config this) route)" "middlewareRegistry this n = None"
    by blast
  from first_unregistered [of n "chainMiddlewares (config this) route" "middlewareRegistry this", OF n]
  obtain pre m post fs
    where "chainMiddlewares (config this) route = pre @ m # post"
      "map (middlewareRegistry this) pre = map Some fs" "middlewareRegistry this m = None"
    by blast
  from buildMiddlewareChain_throws [OF this] show "\<exists>e. buildMiddlewareChain this route = Inl e"
    by blast
qed

lemma buildMiddlewareChain_Inr:
  assumes "buildMiddlewareChain this route = Inr chain"
  shows "\<exists>fs. map (middlewareRegistry this) (chainMiddlewares (config this) route) = map Some fs
              \<and> take (length (chainMiddlewares (config this) route)) chain = map Resolved fs"
proof -
  from assms have "\<not> (\<exists>e. buildMiddlewareChain this route = Inl e)" by simp
  then have "\<forall>n\<in>set (chainMiddlewares (config this) route). middlewareRegistry this n \<noteq> None"
    unfolding buildMiddlewareChain_Inl_iff by simp
  from all_registered_resolves [OF this] obtain fs
    where fs: "map (middlewareRegistry this) (chainMiddlewares (config this) route) = map Some fs" ..
  then have len: "length (chainMiddlewares (config this) route) = length fs"
    by (metis length_map)
  from buildMiddlewareChain_resolved [OF fs] assms
  have "take (length (chainMiddlewares (config this) route)) chain = map Resolved fs"
    by (auto simp: len)
  with fs show ?thesis by blast
qed

subsection \<open>The loops of validation\<close>

lemma checkMiddlewares_eq:
  "checkMiddlewares reg route ms errs =
     errs @ map (middlewareError route) (filter (\<lambda>m. reg m = None) ms)"
  by (induction ms arbitrary: errs) auto

lemma validateRoutes_eq:
  "validateRoutes this rs errs = errs @ concat (map (routeErrors this) rs)"
  by (induction rs arbitrary: errs) (simp_all add: checkMiddlewares_eq routeErrors_def Let_def)

lemma errors_validate: "errors (validate this) = concat (map (routeErrors this) (routes (config this)))"
  by (simp add: validate_def Let_def validateRoutes_eq)

lemma valid_validate: "valid (validate this) \<longleftrightarrow> errors (validate this) = []"
  by (simp add: validate_def Let_def)

lemma validate_eq:
  "validate this =
     \<lparr>valid = (concat (map (routeErrors this) (routes (config this))) = []),
      errors = concat (map (routeErrors this) (routes (config this)))\<rparr>"
  by (simp add: validate_def Let_def validateRoutes_eq)

lemma routeErrors_Nil_iff:
  "routeErrors this route = [] \<longleftrightarrow>
     isFunction (handler route) \<and>
     (\<forall>mw\<in>set (defaultMiddlewares (config this) @ orEmpty (enabled route)).
        middlewareRegistry this mw \<noteq> None)"
  by (auto simp: routeErrors_def filter_empty_conv)

lemma valid_iff:
  "valid (validate this) \<longleftrightarrow>
     (\<forall>route\<in>set (routes (config this)).
        isFunction (handler route) \<and>
        (\<forall>mw\<in>set (defaultMiddlewares (config this) @ orEmpty (enabled route)).
           middlewareRegistry this mw \<noteq> None))"
  unfolding valid_validate errors_validate concat_eq_Nil_conv
  using routeErrors_Nil_iff by auto

lemma validate_reads_only:
  assumes "middlewareRegistry that = middlewareRegistry this"
    and "defaultMiddlewares (config that) = defaultMiddlewares (config this)"
    and "routes (config that) = map g (routes (config this))"
    and "\<And>r. method (g r) = method r \<and> path (g r) = path r
                \<and> handler (g r) = handler r \<and> enabled (g r) = enabled r"
  shows "validate that = validate this"
proof -
  have "routeErrors that (g r) = routeErrors this r" for r
    using assms(1,2) assms(4) [of r]
    by (simp add: routeErrors_def handlerError_def middlewareError_def)
  then have "routeErrors that \<circ> g = routeErrors this"
    by (simp add: fun_eq_iff)
  then show ?thesis
    by (simp add: validate_eq assms(3))
qed

lemma error_reported:
  assumes "route \<in> set (routes (config this))"
    and "mw \<in> set (defaultMiddlewares (config this) @ orEmpty (enabled route))"
    and "middlewareRegistry this mw = None"
  shows "middlewareError route mw \<in> set (errors (validate this))"
proof -
  from assms(2,3) have "middlewareError route mw \<in> set (routeErrors this route)"
    by (auto simp: routeErrors_def)
  with assms(1) show ?thesis
    by (auto simp: errors_validate)
qed

lemma sum_list_ones:
  "\<forall>x\<in>set xs. f x = (1::nat) \<Longrightarrow> sum_list (map f xs) = length xs"
  by (induction xs) auto

subsection \<open>The loop of the apply step\<close>

lemma lower_strings:
  "toLowerCase ''GET'' = ''get''" "toLowerCase ''POST'' = ''post''" "toLowerCase ''PUT'' = ''put''"
  "toLowerCase ''DELETE'' = ''delete''" "toLowerCase ''PATCH'' = ''patch''"
  by code_simp+

lemma toLowerCase_methodName:
  "toLowerCase (methodName m) =
     (case m of GET \<Rightarrow> ''get'' | POST \<Rightarrow> ''post'' | PUT \<Rightarrow> ''put''
      | DELETE \<Rightarrow> ''delete'' | PATCH \<Rightarrow> ''patch'')"
  by (cases m) (simp_all add: lower_strings)

lemma applyRoutes_all:
  "map (buildMiddlewareChain this) rs = map Inr built \<Longrightarrow>
   applyRoutes this rs st =
     (None, st\<lparr>surface := (surface st)\<lparr>calls := calls (surface st) @ map2 callFor rs built\<rparr>,
               chainBuilderCalls := chainBuilderCalls st @ rs\<rparr>)"
proof (induction rs arbitrary: built st)
  case Nil
  then show ?case by simp
next
  case (Cons r rs)
  then obtain c cs where built: "built = c # cs" by (cases built) auto
  with Cons.prems have c: "buildMiddlewareChain this r = Inr c"
    and cs: "map (buildMiddlewareChain this) rs = map Inr cs" by auto
  show ?case
    by (simp add: c built Cons.IH [OF cs] Let_def)
qed

lemma applyRoutes_stops:
  "map (buildMiddlewareChain this) pre = map Inr built \<Longrightarrow>
   buildMiddlewareChain this route = Inl e \<Longrightarrow>
   applyRoutes this (pre @ route # post) st =
     (Some e, st\<lparr>surface := (surface st)\<lparr>calls := calls (surface st) @ map2 callFor pre built\<rparr>,
                 chainBuilderCalls := chainBuilderCalls st @ pre @ [route]\<rparr>)"
proof (induction pre arbitrary: built st)
  case Nil
  then show ?case by (simp add: Let_def)
next
  case (Cons r rs)
  then obtain c cs where built: "built = c # cs" by (cases built) auto
  with Cons.prems have c: "buildMiddlewareChain this r = Inr c"
    and cs: "map (buildMiddlewareChain this) rs = map Inr cs" by auto
  show ?case
    by (simp add: c built Cons.IH [OF cs Cons.prems(2)] Let_def)
qed

lemma applyToExpress_all:
  "map (buildMiddlewareChain this) (routes (config this)) = map Inr built \<Longrightarrow>
   applyToExpress this r =
     (Inr (r\<lparr>calls := calls r @ map2 callFor (routes (config this)) built\<rparr>),
      \<lparr>surface = r\<lparr>calls := calls r @ map2 callFor (routes (config this)) built\<rparr>,
       chainBuilderCalls = routes (config this)\<rparr>)"
  by (simp add: applyToExpress_def applyRoutes_all)

lemma applyToExpress_stops:
  "routes (config this) = pre @ route # post \<Longrightarrow>
   map (buildMiddlewareChain this) pre = map Inr built \<Longrightarrow>
   buildMiddlewareChain this route = Inl e \<Longrightarrow>
   applyToExpress this r =
     (Inl e, \<lparr>surface = r\<lparr>calls := calls r @ map2 callFor pre built\<rparr>,
              chainBuilderCalls = pre @ [route]\<rparr>)"
  by (simp add: applyToExpress_def applyRoutes_stops)

lemma applyToHono_eq: "applyToHono this app = applyToExpress this app"
  by (simp add: applyToHono_def applyToExpress_def)

lemma all_Inr:
  "\<forall>x\<in>set xs. \<exists>y. f x = Inr y \<Longrightarrow> \<exists>ys. map f xs = map Inr ys"
proof (induction xs)
  case Nil
  then show ?case by simp
next
  case (Cons x xs)
  then obtain ys where "map f xs = map Inr ys" by auto
  moreover from Cons.prems obtain y where "f x = Inr y" by auto
  ultimately have "map f (x # xs) = map Inr (y # ys)" by simp
  then show ?case by blast
qed

lemma valid_builds:
  assumes "valid (validate this)"
  shows "\<exists>built. map (buildMiddlewareChain this) (routes (config this)) = map Inr built"
proof (rule all_Inr, rule ballI)
  fix route
  assume r: "route \<in> set (routes (config this))"
  have "\<not> (\<exists>e. buildMiddlewareChain this route = Inl e)"
  proof
    assume "\<exists>e. buildMiddlewareChain this route = Inl e"
    then obtain n where n: "n \<in> set (chainMiddlewares (config this) route)"
      and none: "middlewareRegistry this n = None"
      unfolding buildMiddlewareChain_Inl_iff by blast
    from n have "n \<in> set (defaultMiddlewares (config this) @ orEmpty (enabled route))"
      by (auto simp: chainMiddlewares_eq)
    with assms r have "middlewareRegistry this n \<noteq> None"
      unfolding valid_iff by blast
    with none show False by simp
  qed
  then show "\<exists>y. buildMiddlewareChain this route = Inr y"
    by (cases "buildMiddlewareChain this route") auto
qed

lemma calls_fields:
  "length rs = length built \<Longrightarrow>
   map verb (map2 callFor rs built) = map (\<lambda>route. toLowerCase (methodName (method route))) rs
   \<and> map pathArg (map2 callFor rs built) = map path rs
   \<and> map middlewareArgs (map2 callFor rs built) = built
   \<and> map handlerArg (map2 callFor rs built) = map handler rs"
proof (induction rs arbitrary: built)
  case Nil
  then show ?case by simp
next
  case (Cons r rs)
  then obtain c cs where "built = c # cs" by (cases built) auto
  with Cons show ?case by (simp add: callFor_def)
qed

lemma verbs_lower:
  "set (map verb (map2 callFor rs built)) \<subseteq> {''get'', ''post'', ''put'', ''delete'', ''patch''}"
proof -
  have "verb (callFor r c) \<in> {''get'', ''post'', ''put'', ''delete'', ''patch''}" for r c
    by (cases "method r") (simp_all add: callFor_def lower_strings)
  then show ?thesis
    by (auto simp: set_zip)
qed

lemma first_Inl:
  "(\<exists>ys. map f xs = map Inr ys)
   \<or> (\<exists>pre x post ys e. xs = pre @ x # post \<and> map f pre = map Inr ys \<and> f x = Inl e)"
proof (induction xs)
  case Nil
  then show ?case by simp
next
  case (Cons a xs)
  show ?case
  proof (cases "f a")
    case (Inl e)
    then have "a # xs = [] @ a # xs \<and> map f [] = map Inr [] \<and> f a = Inl e" by simp
    then show ?thesis by blast
  next
    case (Inr y)
    from Cons.IH show ?thesis
    proof
      assume "\<exists>ys. map f xs = map Inr ys"
      then obtain ys where "map f xs = map Inr ys" ..
      with Inr have "map f (a # xs) = map Inr (y # ys)" by simp
      then show ?thesis by blast
    next
      assume "\<exists>pre x post ys e. xs = pre @ x # post \<and> map f pre = map Inr ys \<and> f x = Inl e"
      then obtain pre x post ys e
        where "xs = pre @ x # post" "map f pre = map Inr ys" "f x = Inl e" by blast
      with Inr have "a # xs = (a # pre) @ x # post \<and> map f (a # pre) = map Inr (y # ys) \<and> f x = Inl e"
        by simp
      then show ?thesis by blast
    qed
  qed
qed

lemma applyToExpress_prefix:
  "\<exists>n built. n \<le> length (routes (config this))
     \<and> map (buildMiddlewareChain this) (take n (routes (config this))) = map Inr built
     \<and> surface (snd (applyToExpress this r))
         = r\<lparr>calls := calls r @ map2 callFor (take n (routes (config this))) built\<rparr>
     \<and> chainBuilderCalls (snd (applyToExpress this r)) = take (Suc n) (routes (config this))"
proof -
  from first_Inl [of "buildMiddlewareChain this" "routes (config this)"]
  show ?thesis
  proof
    assume "\<exists>ys. map (buildMiddlewareChain this) (routes (config this)) = map Inr ys"
    then obtain built where b: "map (buildMiddlewareChain this) (routes (config this)) = map Inr built" ..
    let ?n = "length (routes (config this))"
    from b applyToExpress_all [OF b, of r]
    have "?n \<le> length (routes (config this))
     \<and> map (buildMiddlewareChain this) (take ?n (routes (config this))) = map Inr built
     \<and> surface (snd (applyToExpress this r))
         = r\<lparr>calls := calls r @ map2 callFor (take ?n (routes (config this))) built\<rparr>
     \<and> chainBuilderCalls (snd (applyToExpress this r)) = take (Suc ?n) (routes (config this))"
      by simp
    then show ?thesis by blast
  next
    assume "\<exists>pre x post ys e. routes (config this) = pre @ x # post
              \<and> map (buildMiddlewareChain this) pre = map Inr ys \<and> buildMiddlewareChain this x = Inl e"
    then obtain pre x post built e where rs: "routes (config this) = pre @ x # post"
      and b: "map (buildMiddlewareChain this) pre = map Inr built"
      and e: "buildMiddlewareChain this x = Inl e" by blast
    let ?n = "length pre"
    from rs b applyToExpress_stops [OF rs b e, of r]
    have "?n \<le> length (routes (config this))
     \<and> map (buildMiddlewareChain this) (take ?n (routes (config this))) = map Inr built
     \<and> surface (snd (applyToExpress this r))
         = r\<lparr>calls := calls r @ map2 callFor (take ?n (routes (config this))) built\<rparr>
     \<and> chainBuilderCalls (snd (applyToExpress this r)) = take (Suc ?n) (routes (config this))"
      by simp
    then show ?thesis by blast
  qed
qed

lemma unresolved_route_throws:
  assumes "route \<in> set (routes (config this))"
    and "n \<in> set (chainMiddlewares (config this) route)"
    and "middlewareRegistry this n = None"
  shows "\<exists>e. fst (applyToExpress this r) = Inl e"
proof -
  from assms(2,3) have "\<exists>e. buildMiddlewareChain this route = Inl e"
    unfolding buildMiddlewareChain_Inl_iff by blast
  then obtain e where e: "buildMiddlewareChain this route = Inl e" ..
  from first_Inl [of "buildMiddlewareChain this" "routes (config this)"]
  show ?thesis
  proof
    assume "\<exists>ys. map (buildMiddlewareChain this) (routes (config this)) = map Inr ys"
    then obtain ys where "map (buildMiddlewareChain this) (routes (config this)) = map Inr ys" ..
    then have "buildMiddlewareChain this route \<in> set (map Inr ys)"
      using assms(1) by (metis image_eqI set_map)
    with e show ?thesis by auto
  next
    assume "\<exists>pre x post ys e. routes (config this) = pre @ x # post
              \<and> map (buildMiddlewareChain this) pre = map Inr ys \<and> buildMiddlewareChain this x = Inl e"
    then obtain pre x post ys e' where "routes (config this) = pre @ x # post"
      "map (buildMiddlewareChain this) pre = map Inr ys" "buildMiddlewareChain this x = Inl e'"
      by blast
    from applyToExpress_stops [OF this, of r] show ?thesis by simp
  qed
qed

lemma unresolved_route_invalid:
  assumes "route \<in> set (routes (config this))"
    and "n \<in> set (chainMiddlewares (config this) route)"
    and "middlewareRegistry this n = None"
  shows "\<not> valid (validate this)"
proof
  assume "valid (validate this)"
  from valid_builds [OF this] obtain built
    where "map (buildMiddlewareChain this) (routes (config this)) = map Inr built" ..
  then have "buildMiddlewareChain this route \<in> set (map Inr built)"
    using assms(1) by (metis image_eqI set_map)
  moreover from assms(2,3) have "\<exists>e. buildMiddlewareChain this route = Inl e"
    unfolding buildMiddlewareChain_Inl_iff by blast
  ultimately show False by auto
qed

section \<open>The chain builder's rules\<close>

text \<open>
  Claim C4. The names the chain builder resolves are the defaults without the names in
  \<open>route.disabled\<close>, in their order, followed by \<open>route.enabled\<close> in the order given;
  with neither list they are the defaults. Whenever the builder returns a chain, its
  first entries are the registry's functions for exactly these names, in this order.
\<close>

theorem chain_names_filtered_defaults_then_extras:
  "chainMiddlewares (config this) route =
     filter (\<lambda>m. m \<notin> set (orEmpty (disabled route))) (defaultMiddlewares (config this))
       @ orEmpty (enabled route)
   \<and> (orEmpty (disabled route) = [] \<and> orEmpty (enabled route) = []
        \<longrightarrow> chainMiddlewares (config this) route = defaultMiddlewares (config this))
   \<and> (\<forall>chain. buildMiddlewareChain this route = Inr chain \<longrightarrow>
         map (\<lambda>n. map_option Resolved (middlewareRegistry this n))
             (chainMiddlewares (config this) route)
           = map Some (take (length (chainMiddlewares (config this) route)) chain))"
proof (intro conjI allI impI)
  show "chainMiddlewares (config this) route =
     filter (\<lambda>m. m \<notin> set (orEmpty (disabled route))) (defaultMiddlewares (config this))
       @ orEmpty (enabled route)"
    by (rule chainMiddlewares_eq)
next
  assume "orEmpty (disabled route) = [] \<and> orEmpty (enabled route) = []"
  then show "chainMiddlewares (config this) route = defaultMiddlewares (config this)"
    by (simp add: chainMiddlewares_eq)
next
  fix chain
  assume "buildMiddlewareChain this route = Inr chain"
  from buildMiddlewareChain_Inr [OF this] obtain fs
    where fs: "map (middlewareRegistry this) (chainMiddlewares (config this) route) = map Some fs"
      and tk: "take (length (chainMiddlewares (config this) route)) chain = map Resolved fs"
    by blast
  have "map (\<lambda>n. map_option Resolved (middlewareRegistry this n)) (chainMiddlewares (config this) route)
          = map (map_option Resolved) (map (middlewareRegistry this) (chainMiddlewares (config this) route))"
    by simp
  also have "\<dots> = map Some (map Resolved fs)"
    unfolding fs by simp
  finally show "map (\<lambda>n. map_option Resolved (middlewareRegistry this n))
             (chainMiddlewares (config this) route)
           = map Some (take (length (chainMiddlewares (config this) route)) chain)"
    by (simp add: tk)
qed

text \<open>
  The rule at the specification's example (defaults \<open>[A, B]\<close>, \<open>A\<close> disabled, extras
  \<open>[X, Y]\<close>), and at a route with neither list.
\<close>

theorem chain_names_filtered_defaults_then_extras_witness:
  "chainMiddlewares (config abRouter) swapRoute = [''B'', ''X'', ''Y'']
   \<and> chainMiddlewares (config abRouter) openRoute = [''A'', ''B'']
   \<and> buildMiddlewareChain abRouter swapRoute
        = Inr [Resolved 2, Resolved 3, Resolved 4, FactoryResult 9 [''admin'']]
   \<and> map (\<lambda>n. map_option Resolved (middlewareRegistry abRouter n)) [''B'', ''X'', ''Y'']
        = map Some (take 3 [Resolved 2, Resolved 3, Resolved 4, FactoryResult 9 [''admin'']])"
proof -
  have b: "buildMiddlewareChain abRouter swapRoute
        = Inr [Resolved 2, Resolved 3, Resolved 4, FactoryResult 9 [''admin'']]"
    by (simp add: buildMiddlewareChain_def chainMiddlewares_def chainRoles_def abRouter_def
        abConfig_def swapRoute_def routerDefs)
  have e: "orEmpty (disabled openRoute) = [] \<and> orEmpty (enabled openRoute) = []"
    by (simp add: openRoute_def)
  from chain_names_filtered_defaults_then_extras [where this = abRouter and route = swapRoute]
    chain_names_filtered_defaults_then_extras [where this = abRouter and route = openRoute] b e
  show ?thesis
    by (simp add: abRouter_def abConfig_def swapRoute_def routerDefs)
qed

text \<open>
  Claim C9. The filter of \<open>route.disabled\<close> runs before the extras are appended, so
  every name of \<open>route.enabled\<close> is in the list, disabled or not, and nothing removes
  duplicates: a name occurs as often as in the surviving defaults plus as often as in
  \<open>route.enabled\<close>, hence at least twice when it is a default, an extra and not disabled.
\<close>

theorem extras_bypass_disable_filter:
  "set (orEmpty (enabled route)) \<subseteq> set (chainMiddlewares cfg route)
   \<and> count_list (chainMiddlewares cfg route) m
       = (if m \<in> set (orEmpty (disabled route)) then 0 else count_list (defaultMiddlewares cfg) m)
         + count_list (orEmpty (enabled route)) m
   \<and> (m \<in> set (defaultMiddlewares cfg) \<and> m \<in> set (orEmpty (enabled route))
        \<and> m \<notin> set (orEmpty (disabled route))
        \<longrightarrow> 2 \<le> count_list (chainMiddlewares cfg route) m)"
proof (intro conjI impI)
  show "set (orEmpty (enabled route)) \<subseteq> set (chainMiddlewares cfg route)"
    by (simp add: chainMiddlewares_eq)
next
  show cnt: "count_list (chainMiddlewares cfg route) m
       = (if m \<in> set (orEmpty (disabled route)) then 0 else count_list (defaultMiddlewares cfg) m)
         + count_list (orEmpty (enabled route)) m"
    by (simp add: chainMiddlewares_eq count_list_filter)
  assume a: "m \<in> set (defaultMiddlewares cfg) \<and> m \<in> set (orEmpty (enabled route))
        \<and> m \<notin> set (orEmpty (disabled route))"
  then have "count_list (defaultMiddlewares cfg) m \<noteq> 0" "count_list (orEmpty (enabled route)) m \<noteq> 0"
    by (simp_all add: count_list_0_iff)
  with a cnt show "2 \<le> count_list (chainMiddlewares cfg route) m"
    by simp
qed

text \<open>
  With the defaults \<open>[A, B]\<close>: a route that disables and enables \<open>A\<close> keeps the
  enabled one, behind \<open>B\<close>; a route that only enables \<open>A\<close> runs it twice.
\<close>

theorem extras_bypass_disable_filter_witness:
  "chainMiddlewares abConfig reenableRoute = [''B'', ''A'']
   \<and> chainMiddlewares abConfig repeatRoute = [''A'', ''B'', ''A'']
   \<and> count_list (chainMiddlewares abConfig repeatRoute) ''A'' = 2
   \<and> buildMiddlewareChain abRouter repeatRoute
        = Inr [Resolved 1, Resolved 2, Resolved 1, FactoryResult 9 [''admin'']]"
proof -
  have 1: "''A'' \<in> set (defaultMiddlewares abConfig) \<and> ''A'' \<in> set (orEmpty (enabled repeatRoute))
        \<and> ''A'' \<notin> set (orEmpty (disabled repeatRoute))"
    by (simp add: abConfig_def repeatRoute_def)
  have 2: "chainMiddlewares abConfig reenableRoute = [''B'', ''A'']"
    "chainMiddlewares abConfig repeatRoute = [''A'', ''B'', ''A'']"
    by (simp_all add: chainMiddlewares_def abConfig_def reenableRoute_def repeatRoute_def)
  have 3: "buildMiddlewareChain abRouter repeatRoute
        = Inr [Resolved 1, Resolved 2, Resolved 1, FactoryResult 9 [''admin'']]"
    by (simp add: buildMiddlewareChain_def chainMiddlewares_def chainRoles_def abRouter_def
        abConfig_def repeatRoute_def routerDefs)
  from extras_bypass_disable_filter [where cfg = abConfig and route = repeatRoute and m = "''A''"]
    extras_bypass_disable_filter [where cfg = abConfig and route = reenableRoute and m = "''A''"]
    1 2 3
  show ?thesis
    by (simp add: abConfig_def repeatRoute_def)
qed

text \<open>
  Claim C5. The exclusion filters the default roles; a \<open>route.roles\<close> that is present
  then replaces the result, so with both fields set the role list is \<open>route.roles\<close>
  and the exclusion has no effect: it is \<open>route.roles\<close> that the role check receives.
\<close>

theorem roles_replace_after_exclusion:
  "(roles route = None \<longrightarrow>
      chainRoles (config this) route
        = filter (\<lambda>r. r \<notin> set (orEmpty (excludeRoles route))) (defaultRoles (config this)))
   \<and> (roles route = Some given \<longrightarrow> chainRoles (config this) route = given)
   \<and> (roles route = Some given \<and> given \<noteq> []
        \<and> map (middlewareRegistry this) (chainMiddlewares (config this) route) = map Some fs
        \<and> middlewareRegistry this ''roleCheck'' = Some f
        \<longrightarrow> buildMiddlewareChain this route = Inr (map Resolved fs @ [FactoryResult f given]))"
proof (intro conjI impI)
  assume "roles route = None"
  then show "chainRoles (config this) route
        = filter (\<lambda>r. r \<notin> set (orEmpty (excludeRoles route))) (defaultRoles (config this))"
    by (simp add: chainRoles_eq)
next
  assume "roles route = Some given"
  then show "chainRoles (config this) route = given"
    by (simp add: chainRoles_eq)
next
  assume a: "roles route = Some given \<and> given \<noteq> []
        \<and> map (middlewareRegistry this) (chainMiddlewares (config this) route) = map Some fs
        \<and> middlewareRegistry this ''roleCheck'' = Some f"
  then have r: "chainRoles (config this) route = given" by (simp add: chainRoles_eq)
  from a have "map (middlewareRegistry this) (chainMiddlewares (config this) route) = map Some fs"
    by simp
  from buildMiddlewareChain_resolved [OF this] a r
  show "buildMiddlewareChain this route = Inr (map Resolved fs @ [FactoryResult f given])"
    by simp
qed

text \<open>
  The specification's example: the default role \<open>admin\<close>, a route with the roles
  \<open>[editor]\<close> that also excludes \<open>admin\<close>.
\<close>

theorem roles_replace_after_exclusion_witness:
  "chainRoles (config abRouter) editorRoute = [''editor'']
   \<and> buildMiddlewareChain abRouter editorRoute
        = Inr [Resolved 1, Resolved 2, FactoryResult 9 [''editor'']]
   \<and> chainRoles (config abRouter) plainRoute = [''admin'']"
proof -
  have 1: "roles editorRoute = Some [''editor'']" by (simp add: editorRoute_def)
  have 2: "roles editorRoute = Some [''editor''] \<and> [''editor''] \<noteq> []
        \<and> map (middlewareRegistry abRouter) (chainMiddlewares (config abRouter) editorRoute)
            = map Some [1, 2]
        \<and> middlewareRegistry abRouter ''roleCheck'' = Some 9"
    by (simp add: chainMiddlewares_def abRouter_def abConfig_def editorRoute_def routerDefs)
  have 3: "roles plainRoute = None" by (simp add: plainRoute_def)
  from roles_replace_after_exclusion
      [where route = editorRoute and given = "[''editor'']" and this = abRouter
         and fs = "[1, 2]" and f = 9]
    roles_replace_after_exclusion [where route = plainRoute and this = abRouter] 1 2 3
  show ?thesis
    by (simp add: abRouter_def abConfig_def plainRoute_def routerDefs)
qed

text \<open>
  Claim C10. The builder tests \<open>route.roles\<close> for presence: an empty array replaces
  the role list by the empty one, the test \<open>roles.length > 0\<close> fails and the chain is
  the resolved names alone, whatever the default roles are and even with \<open>roleCheck\<close>
  registered. A route without the field keeps the default roles (less the excluded
  ones), and with them the role check.
\<close>

theorem empty_roles_array_switches_role_check_off:
  "(roles route = Some [] \<longrightarrow>
      chainRoles (config this) route = []
      \<and> buildMiddlewareChain this route
          = resolveAll (middlewareRegistry this) (chainMiddlewares (config this) route) [])
   \<and> (roles route = Some []
        \<and> map (middlewareRegistry this) (chainMiddlewares (config this) route) = map Some fs
        \<longrightarrow> buildMiddlewareChain this route = Inr (map Resolved fs))
   \<and> (roles route = None \<longrightarrow>
        chainRoles (config this) route
          = filter (\<lambda>r. r \<notin> set (orEmpty (excludeRoles route))) (defaultRoles (config this)))
   \<and> (roles route = None \<and> excludeRoles route = None \<and> defaultRoles (config this) \<noteq> []
        \<and> map (middlewareRegistry this) (chainMiddlewares (config this) route) = map Some fs
        \<and> middlewareRegistry this ''roleCheck'' = Some f
        \<longrightarrow> buildMiddlewareChain this route
              = Inr (map Resolved fs @ [FactoryResult f (defaultRoles (config this))]))"
proof (intro conjI impI)
  assume e: "roles route = Some []"
  then show r: "chainRoles (config this) route = []"
    by (simp add: chainRoles_eq)
  then show "buildMiddlewareChain this route
          = resolveAll (middlewareRegistry this) (chainMiddlewares (config this) route) []"
    by (simp add: buildMiddlewareChain_def Let_def split: sum.splits)
next
  assume a: "roles route = Some []
        \<and> map (middlewareRegistry this) (chainMiddlewares (config this) route) = map Some fs"
  then have r: "chainRoles (config this) route = []"
    by (simp add: chainRoles_eq)
  from a have "map (middlewareRegistry this) (chainMiddlewares (config this) route) = map Some fs"
    by simp
  from buildMiddlewareChain_resolved [OF this] r
  show "buildMiddlewareChain this route = Inr (map Resolved fs)"
    by simp
next
  assume "roles route = None"
  then show "chainRoles (config this) route
          = filter (\<lambda>r. r \<notin> set (orEmpty (excludeRoles route))) (defaultRoles (config this))"
    by (simp add: chainRoles_eq)
next
  assume a: "roles route = None \<and> excludeRoles route = None \<and> defaultRoles (config this) \<noteq> []
        \<and> map (middlewareRegistry this) (chainMiddlewares (config this) route) = map Some fs
        \<and> middlewareRegistry this ''roleCheck'' = Some f"
  then have r: "chainRoles (config this) route = defaultRoles (config this)"
    by (simp add: chainRoles_eq)
  from a have "map (middlewareRegistry this) (chainMiddlewares (config this) route) = map Some fs"
    by simp
  from buildMiddlewareChain_resolved [OF this] a r
  show "buildMiddlewareChain this route
              = Inr (map Resolved fs @ [FactoryResult f (defaultRoles (config this))])"
    by simp
qed

text \<open>
  Under the default role \<open>admin\<close> and a registered \<open>roleCheck\<close>: the route with
  \<open>roles = []\<close> gets no role check, the route without the field gets one.
\<close>

theorem empty_roles_array_switches_role_check_off_witness:
  "defaultRoles (config abRouter) = [''admin'']
   \<and> middlewareRegistry abRouter ''roleCheck'' = Some 9
   \<and> roles openRoute = Some []
   \<and> buildMiddlewareChain abRouter openRoute = Inr [Resolved 1, Resolved 2]
   \<and> roles plainRoute = None
   \<and> buildMiddlewareChain abRouter plainRoute
        = Inr [Resolved 1, Resolved 2, FactoryResult 9 [''admin'']]"
proof -
  have 1: "roles openRoute = Some []" "roles plainRoute = None" "excludeRoles plainRoute = None"
    by (simp_all add: openRoute_def plainRoute_def)
  have 2: "map (middlewareRegistry abRouter) (chainMiddlewares (config abRouter) openRoute)
            = map Some [1, 2]"
    "map (middlewareRegistry abRouter) (chainMiddlewares (config abRouter) plainRoute)
            = map Some [1, 2]"
    by (simp_all add: chainMiddlewares_def abRouter_def abConfig_def openRoute_def plainRoute_def
        routerDefs)
  have 3: "defaultRoles (config abRouter) = [''admin'']"
    "middlewareRegistry abRouter ''roleCheck'' = Some 9"
    by (simp_all add: abRouter_def abConfig_def routerDefs)
  from empty_roles_array_switches_role_check_off
      [where this = abRouter and route = openRoute and fs = "[1, 2]" and f = 9] 1 2
  have a: "buildMiddlewareChain abRouter openRoute = Inr (map Resolved [1, 2])"
    by blast
  from empty_roles_array_switches_role_check_off
      [where this = abRouter and route = plainRoute and fs = "[1, 2]" and f = 9] 1 2 3
  have b: "buildMiddlewareChain abRouter plainRoute
             = Inr (map Resolved [1, 2] @ [FactoryResult 9 (defaultRoles (config abRouter))])"
    by simp
  from a b 1 3 show ?thesis
    by simp
qed

text \<open>
  Claim C1, as the code has it. With a role list that is not empty: when every name
  resolves and \<open>roleCheck\<close> is registered, the chain is the resolved functions
  followed by the factory's result for the role list, last; when \<open>roleCheck\<close> is not
  registered, the test \<open>if (roleMiddleware)\<close> leaves the role check out and the chain
  is the resolved functions alone. A name of the list that the registry lacks is never
  left out: the builder throws at the first such name.
\<close>

theorem role_check_appended_only_when_registered:
  "(chainRoles (config this) route \<noteq> []
      \<and> map (middlewareRegistry this) (chainMiddlewares (config this) route) = map Some fs
      \<and> middlewareRegistry this ''roleCheck'' = Some f
      \<longrightarrow> buildMiddlewareChain this route
            = Inr (map Resolved fs @ [FactoryResult f (chainRoles (config this) route)]))
   \<and> (chainRoles (config this) route \<noteq> []
      \<and> map (middlewareRegistry this) (chainMiddlewares (config this) route) = map Some fs
      \<and> middlewareRegistry this ''roleCheck'' = None
      \<longrightarrow> buildMiddlewareChain this route = Inr (map Resolved fs))
   \<and> (chainMiddlewares (config this) route = pre @ n # post
      \<and> map (middlewareRegistry this) pre = map Some fs
      \<and> middlewareRegistry this n = None
      \<longrightarrow> buildMiddlewareChain this route = Inl (Error (notRegistered n)))"
proof (intro conjI impI)
  assume a: "chainRoles (config this) route \<noteq> []
      \<and> map (middlewareRegistry this) (chainMiddlewares (config this) route) = map Some fs
      \<and> middlewareRegistry this ''roleCheck'' = Some f"
  then have "map (middlewareRegistry this) (chainMiddlewares (config this) route) = map Some fs"
    by simp
  from buildMiddlewareChain_resolved [OF this] a
  show "buildMiddlewareChain this route
            = Inr (map Resolved fs @ [FactoryResult f (chainRoles (config this) route)])"
    by simp
next
  assume a: "chainRoles (config this) route \<noteq> []
      \<and> map (middlewareRegistry this) (chainMiddlewares (config this) route) = map Some fs
      \<and> middlewareRegistry this ''roleCheck'' = None"
  then have "map (middlewareRegistry this) (chainMiddlewares (config this) route) = map Some fs"
    by simp
  from buildMiddlewareChain_resolved [OF this] a
  show "buildMiddlewareChain this route = Inr (map Resolved fs)"
    by simp
next
  assume a: "chainMiddlewares (config this) route = pre @ n # post
      \<and> map (middlewareRegistry this) pre = map Some fs
      \<and> middlewareRegistry this n = None"
  then show "buildMiddlewareChain this route = Inl (Error (notRegistered n))"
    using buildMiddlewareChain_throws [of this route pre n post fs] by simp
qed

text \<open>
  The three cases on the \<open>POST /admin\<close> route of the scenario: everything registered,
  \<open>roleCheck\<close> missing, \<open>logging\<close> missing.
\<close>

theorem role_check_appended_only_when_registered_witness:
  "buildMiddlewareChain guardedRouter adminRoute
     = Inr [Resolved 1, Resolved 2, FactoryResult 3 [''admin'']]
   \<and> buildMiddlewareChain scenarioRouter adminRoute = Inr [Resolved 1, Resolved 2]
   \<and> buildMiddlewareChain bareRouter adminRoute = Inl (Error (notRegistered ''logging''))"
proof -
  have 1: "chainRoles (config guardedRouter) adminRoute \<noteq> []
      \<and> map (middlewareRegistry guardedRouter) (chainMiddlewares (config guardedRouter) adminRoute)
          = map Some [1, 2]
      \<and> middlewareRegistry guardedRouter ''roleCheck'' = Some 3"
    by (simp add: chainRoles_def chainMiddlewares_def guardedRouter_def scenarioRouter_def
        scenarioConfig_def adminRoute_def routerDefs)
  have 2: "chainRoles (config scenarioRouter) adminRoute \<noteq> []
      \<and> map (middlewareRegistry scenarioRouter) (chainMiddlewares (config scenarioRouter) adminRoute)
          = map Some [1, 2]
      \<and> middlewareRegistry scenarioRouter ''roleCheck'' = None"
    by (simp add: chainRoles_def chainMiddlewares_def scenarioRouter_def
        scenarioConfig_def adminRoute_def routerDefs)
  have 3: "chainMiddlewares (config bareRouter) adminRoute = [] @ ''logging'' # [''auth'']
      \<and> map (middlewareRegistry bareRouter) [] = map Some []
      \<and> middlewareRegistry bareRouter ''logging'' = None"
    by (simp add: chainMiddlewares_def bareRouter_def scenarioConfig_def adminRoute_def routerDefs)
  have 4: "chainRoles (config guardedRouter) adminRoute = [''admin'']"
    by (simp add: chainRoles_def guardedRouter_def scenarioRouter_def
        scenarioConfig_def adminRoute_def routerDefs)
  from role_check_appended_only_when_registered
      [where this = guardedRouter and route = adminRoute and fs = "[1, 2]" and f = 3]
    role_check_appended_only_when_registered
      [where this = scenarioRouter and route = adminRoute and fs = "[1, 2]"]
    role_check_appended_only_when_registered
      [where this = bareRouter and route = adminRoute and pre = "[]" and n = "''logging''"
         and post = "[''auth'']" and fs = "[]"]
    1 2 3 4
  show ?thesis
    by simp
qed

text \<open>
  Claim C1 as stated fails on the specification's own scenario: the route asks for the
  role \<open>admin\<close>, nobody registered \<open>roleCheck\<close>, and the builder returns the two
  named middleware and no role check, without an error.
\<close>

theorem scenario_admin_chain_without_role_check:
  "chainRoles (config scenarioRouter) adminRoute = [''admin'']
   \<and> middlewareRegistry scenarioRouter ''roleCheck'' = None
   \<and> buildMiddlewareChain scenarioRouter adminRoute = Inr [Resolved 1, Resolved 2]"
  by (simp add: buildMiddlewareChain_def chainRoles_def chainMiddlewares_def scenarioRouter_def
      scenarioConfig_def adminRoute_def routerDefs)

section \<open>What validation reports\<close>

text \<open>
  Claim C6. For every route, \<open>validate\<close> checks the defaults and the route's extras
  against the registry and never reads \<open>route.disabled\<close>: a default that the registry
  lacks is reported for the route, and the report is invalid, also when the route
  disables that default; replacing the \<open>disabled\<close> fields by anything leaves the
  report unchanged.
\<close>

theorem validate_checks_defaults_before_disabling:
  "(route \<in> set (routes (config this))
      \<and> mw \<in> set (defaultMiddlewares (config this) @ orEmpty (enabled route))
      \<and> middlewareRegistry this mw = None
      \<longrightarrow> middlewareError route mw \<in> set (errors (validate this))
          \<and> \<not> valid (validate this))
   \<and> validate (this\<lparr>config := (config this)
          \<lparr>routes := map (\<lambda>r. r\<lparr>disabled := d r\<rparr>) (routes (config this))\<rparr>\<rparr>)
       = validate this"
proof (intro conjI impI)
  assume a: "route \<in> set (routes (config this))
      \<and> mw \<in> set (defaultMiddlewares (config this) @ orEmpty (enabled route))
      \<and> middlewareRegistry this mw = None"
  then show e: "middlewareError route mw \<in> set (errors (validate this))"
    using error_reported [of route this mw] by simp
  then have "errors (validate this) \<noteq> []" by auto
  then show "\<not> valid (validate this)"
    by (simp add: valid_validate)
next
  show "validate (this\<lparr>config := (config this)
          \<lparr>routes := map (\<lambda>r. r\<lparr>disabled := d r\<rparr>) (routes (config this))\<rparr>\<rparr>)
       = validate this"
    by (rule validate_reads_only [where g = "\<lambda>r. r\<lparr>disabled := d r\<rparr>"]) simp_all
qed

text \<open>
  The route \<open>GET /public\<close> disables \<open>logging\<close>, so its chain is empty and builds
  with nothing registered; validation still reports \<open>logging\<close> for it.
\<close>

theorem validate_checks_defaults_before_disabling_witness:
  "disabled publicRoute = Some [''logging'']
   \<and> chainMiddlewares (config publicOnlyRouter) publicRoute = []
   \<and> buildMiddlewareChain publicOnlyRouter publicRoute = Inr []
   \<and> errors (validate publicOnlyRouter)
        = [''Route GET /public: Middleware '' @ [CHR 0x27] @ ''logging'' @ [CHR 0x27] @ '' not registered'']
   \<and> \<not> valid (validate publicOnlyRouter)"
proof -
  have 1: "publicRoute \<in> set (routes (config publicOnlyRouter))
      \<and> ''logging'' \<in> set (defaultMiddlewares (config publicOnlyRouter) @ orEmpty (enabled publicRoute))
      \<and> middlewareRegistry publicOnlyRouter ''logging'' = None"
    by (simp add: publicOnlyRouter_def publicRoute_def routerDefs)
  have 2: "chainMiddlewares (config publicOnlyRouter) publicRoute = []"
    "buildMiddlewareChain publicOnlyRouter publicRoute = Inr []"
    by (simp_all add: buildMiddlewareChain_def chainMiddlewares_def chainRoles_def
        publicOnlyRouter_def publicRoute_def routerDefs)
  have 3: "errors (validate publicOnlyRouter)
        = [''Route GET /public: Middleware '' @ [CHR 0x27] @ ''logging'' @ [CHR 0x27] @ '' not registered'']"
    by (simp add: validate_def middlewareError_def notRegistered_def
        publicOnlyRouter_def publicRoute_def routerDefs)
  from validate_checks_defaults_before_disabling
      [where this = publicOnlyRouter and route = publicRoute and mw = "''logging''"] 1
  have "\<not> valid (validate publicOnlyRouter)"
    by blast
  with 2 3 show ?thesis
    by (simp add: publicRoute_def)
qed

text \<open>
  Claim C7. \<open>validate\<close> is a total function of the router's state and returns only
  the report, so it neither throws nor changes the registry or the route table. The
  errors are, route after route in table order, one for a handler that is not a
  function and one for each unresolved reference; \<open>valid\<close> holds exactly when there
  is no error; when every route contributes exactly one error there are as many errors
  as routes.
\<close>

theorem validate_collects_every_error:
  "errors (validate this) = concat (map (routeErrors this) (routes (config this)))
   \<and> valid (validate this) = (errors (validate this) = [])
   \<and> ((\<forall>route\<in>set (routes (config this)). length (routeErrors this route) = 1)
        \<longrightarrow> length (errors (validate this)) = length (routes (config this)))"
proof (intro conjI impI)
  show "errors (validate this) = concat (map (routeErrors this) (routes (config this)))"
    by (rule errors_validate)
  show "valid (validate this) = (errors (validate this) = [])"
    by (rule valid_validate)
  assume "\<forall>route\<in>set (routes (config this)). length (routeErrors this route) = 1"
  then have "sum_list (map (\<lambda>r. length (routeErrors this r)) (routes (config this)))
               = length (routes (config this))"
    by (rule sum_list_ones)
  then show "length (errors (validate this)) = length (routes (config this))"
    by (simp add: errors_validate length_concat comp_def)
qed

text \<open>The specification's example: three routes, one missing middleware each.\<close>

theorem validate_collects_every_error_witness:
  "validate threeMissingRouter =
     \<lparr>valid = False,
      errors = [''Route GET /a: Middleware '' @ [CHR 0x27] @ ''cache'' @ [CHR 0x27] @ '' not registered'',
                ''Route GET /b: Middleware '' @ [CHR 0x27] @ ''audit'' @ [CHR 0x27] @ '' not registered'',
                ''Route GET /c: Middleware '' @ [CHR 0x27] @ ''limit'' @ [CHR 0x27] @ '' not registered'']\<rparr>
   \<and> length (errors (validate threeMissingRouter)) = 3"
proof -
  have 1: "\<forall>route\<in>set (routes (config threeMissingRouter)).
             length (routeErrors threeMissingRouter route) = 1"
    by (simp add: routeErrors_def threeMissingRouter_def extraRoute_def routerDefs)
  have 2: "length (routes (config threeMissingRouter)) = 3"
    by (simp add: threeMissingRouter_def routerDefs)
  have 3: "validate threeMissingRouter =
     \<lparr>valid = False,
      errors = [''Route GET /a: Middleware '' @ [CHR 0x27] @ ''cache'' @ [CHR 0x27] @ '' not registered'',
                ''Route GET /b: Middleware '' @ [CHR 0x27] @ ''audit'' @ [CHR 0x27] @ '' not registered'',
                ''Route GET /c: Middleware '' @ [CHR 0x27] @ ''limit'' @ [CHR 0x27] @ '' not registered'']\<rparr>"
    by (simp add: validate_def middlewareError_def notRegistered_def
        threeMissingRouter_def extraRoute_def routerDefs)
  from validate_collects_every_error [where this = threeMissingRouter] 1
  have "length (errors (validate threeMissingRouter)) = length (routes (config threeMissingRouter))"
    by blast
  with 2 have "length (errors (validate threeMissingRouter)) = 3"
    by simp
  with 3 show ?thesis
    by simp
qed

text \<open>
  Claim C3, as the code has it. \<open>validate\<close> never looks at a role list or at the
  \<open>roleCheck\<close> entry: the report is valid exactly when every route has a function for
  a handler and every default and extra name is registered, and it stays the same
  under any change of \<open>defaultRoles\<close>, \<open>route.roles\<close> and \<open>route.excludeRoles\<close>.
\<close>

theorem validate_ignores_role_check:
  "(valid (validate this) \<longleftrightarrow>
      (\<forall>route\<in>set (routes (config this)).
         isFunction (handler route)
         \<and> (\<forall>mw\<in>set (defaultMiddlewares (config this) @ orEmpty (enabled route)).
               middlewareRegistry this mw \<noteq> None)))
   \<and> validate (this\<lparr>config := (config this)
          \<lparr>defaultRoles := dr,
           routes := map (\<lambda>r. r\<lparr>roles := ro r, excludeRoles := ex r\<rparr>) (routes (config this))\<rparr>\<rparr>)
       = validate this"
proof
  show "valid (validate this) \<longleftrightarrow>
      (\<forall>route\<in>set (routes (config this)).
         isFunction (handler route)
         \<and> (\<forall>mw\<in>set (defaultMiddlewares (config this) @ orEmpty (enabled route)).
               middlewareRegistry this mw \<noteq> None))"
    by (rule valid_iff)
  show "validate (this\<lparr>config := (config this)
          \<lparr>defaultRoles := dr,
           routes := map (\<lambda>r. r\<lparr>roles := ro r, excludeRoles := ex r\<rparr>) (routes (config this))\<rparr>\<rparr>)
       = validate this"
    by (rule validate_reads_only [where g = "\<lambda>r. r\<lparr>roles := ro r, excludeRoles := ex r\<rparr>"])
      simp_all
qed

text \<open>
  The scenario is valid although \<open>POST /admin\<close> asks for a role and \<open>roleCheck\<close> is
  not registered, and the report does not move with the role fields.
\<close>

theorem validate_ignores_role_check_witness:
  "chainRoles (config scenarioRouter) adminRoute = [''admin'']
   \<and> middlewareRegistry scenarioRouter ''roleCheck'' = None
   \<and> valid (validate scenarioRouter)
   \<and> validate (scenarioRouter\<lparr>config := (config scenarioRouter)
          \<lparr>defaultRoles := [''admin''],
           routes := map (\<lambda>r. r\<lparr>roles := None, excludeRoles := None\<rparr>)
                       (routes (config scenarioRouter))\<rparr>\<rparr>)
       = validate scenarioRouter"
proof -
  have 1: "\<forall>route\<in>set (routes (config scenarioRouter)).
         isFunction (handler route)
         \<and> (\<forall>mw\<in>set (defaultMiddlewares (config scenarioRouter) @ orEmpty (enabled route)).
               middlewareRegistry scenarioRouter mw \<noteq> None)"
    by (simp add: scenarioRouter_def scenarioConfig_def publicRoute_def adminRoute_def routerDefs)
  have 2: "chainRoles (config scenarioRouter) adminRoute = [''admin'']"
    "middlewareRegistry scenarioRouter ''roleCheck'' = None"
    by (simp_all add: chainRoles_def scenarioRouter_def scenarioConfig_def adminRoute_def routerDefs)
  from validate_ignores_role_check
      [where this = scenarioRouter and dr = "[''admin'']" and ro = "\<lambda>r. None" and ex = "\<lambda>r. None"]
    1 2
  show ?thesis
    by blast
qed

text \<open>
  Claim C3 as stated fails on the specification's scenario: a route has the role list
  \<open>[admin]\<close>, the registry has no \<open>roleCheck\<close>, and the report is valid with no
  error.
\<close>

theorem scenario_valid_without_role_check:
  "chainRoles (config scenarioRouter) adminRoute = [''admin'']
   \<and> middlewareRegistry scenarioRouter ''roleCheck'' = None
   \<and> validate scenarioRouter = \<lparr>valid = True, errors = []\<rparr>"
  by (simp add: validate_def chainRoles_def scenarioRouter_def scenarioConfig_def
      publicRoute_def adminRoute_def routerDefs)

section \<open>What the apply step registers\<close>

text \<open>
  Claim C8. Whatever the configuration, the calls an apply makes on the surface are
  those of the first routes of the table, in table order, and the chain builder has
  been called once for each of them and once for the route after them, if there is
  one. When every route's chain builds, which a valid report guarantees,
  \<open>applyToExpress\<close> and \<open>applyToHono\<close> call the chain builder once for each route, in
  table order (the log of calls is the route table), and make one call on the surface
  for each route, in table order: under the lower-cased verb, which is one of \<open>get\<close>,
  \<open>post\<close>, \<open>put\<close>, \<open>delete\<close> and \<open>patch\<close>, with the route's path as it is, that
  route's chain and its handler. They return the surface they were given: the same
  object, with these calls behind the ones it had.
\<close>

theorem apply_registers_routes_in_table_order:
  "(\<exists>n chains. n \<le> length (routes (config this))
      \<and> map (buildMiddlewareChain this) (take n (routes (config this))) = map Inr chains
      \<and> surface (snd (applyToExpress this r))
          = r\<lparr>calls := calls r @ map2 callFor (take n (routes (config this))) chains\<rparr>
      \<and> chainBuilderCalls (snd (applyToExpress this r)) = take (Suc n) (routes (config this)))
   \<and> (map (buildMiddlewareChain this) (routes (config this)) = map Inr built \<longrightarrow>
      applyToExpress this r =
        (Inr (r\<lparr>calls := calls r @ map2 callFor (routes (config this)) built\<rparr>),
         \<lparr>surface = r\<lparr>calls := calls r @ map2 callFor (routes (config this)) built\<rparr>,
          chainBuilderCalls = routes (config this)\<rparr>)
      \<and> applyToHono this r =
        (Inr (r\<lparr>calls := calls r @ map2 callFor (routes (config this)) built\<rparr>),
         \<lparr>surface = r\<lparr>calls := calls r @ map2 callFor (routes (config this)) built\<rparr>,
          chainBuilderCalls = routes (config this)\<rparr>)
      \<and> map verb (map2 callFor (routes (config this)) built)
          = map (\<lambda>route. toLowerCase (methodName (method route))) (routes (config this))
      \<and> set (map verb (map2 callFor (routes (config this)) built))
          \<subseteq> {''get'', ''post'', ''put'', ''delete'', ''patch''}
      \<and> map pathArg (map2 callFor (routes (config this)) built) = map path (routes (config this))
      \<and> map middlewareArgs (map2 callFor (routes (config this)) built) = built
      \<and> map handlerArg (map2 callFor (routes (config this)) built)
          = map handler (routes (config this)))
   \<and> (valid (validate this) \<longrightarrow>
        (\<exists>chains. map (buildMiddlewareChain this) (routes (config this)) = map Inr chains))"
proof (intro conjI impI)
  show "\<exists>n chains. n \<le> length (routes (config this))
      \<and> map (buildMiddlewareChain this) (take n (routes (config this))) = map Inr chains
      \<and> surface (snd (applyToExpress this r))
          = r\<lparr>calls := calls r @ map2 callFor (take n (routes (config this))) chains\<rparr>
      \<and> chainBuilderCalls (snd (applyToExpress this r)) = take (Suc n) (routes (config this))"
    by (rule applyToExpress_prefix)
next
  assume b: "map (buildMiddlewareChain this) (routes (config this)) = map Inr built"
  then have len: "length (routes (config this)) = length built"
    by (metis length_map)
  from b show "applyToExpress this r =
        (Inr (r\<lparr>calls := calls r @ map2 callFor (routes (config this)) built\<rparr>),
         \<lparr>surface = r\<lparr>calls := calls r @ map2 callFor (routes (config this)) built\<rparr>,
          chainBuilderCalls = routes (config this)\<rparr>)"
    by (rule applyToExpress_all)
  from b show "applyToHono this r =
        (Inr (r\<lparr>calls := calls r @ map2 callFor (routes (config this)) built\<rparr>),
         \<lparr>surface = r\<lparr>calls := calls r @ map2 callFor (routes (config this)) built\<rparr>,
          chainBuilderCalls = routes (config this)\<rparr>)"
    unfolding applyToHono_eq by (rule applyToExpress_all)
  from calls_fields [OF len]
  show "map verb (map2 callFor (routes (config this)) built)
          = map (\<lambda>route. toLowerCase (methodName (method route))) (routes (config this))"
    and "map pathArg (map2 callFor (routes (config this)) built) = map path (routes (config this))"
    and "map middlewareArgs (map2 callFor (routes (config this)) built) = built"
    and "map handlerArg (map2 callFor (routes (config this)) built)
          = map handler (routes (config this))"
    by blast+
  show "set (map verb (map2 callFor (routes (config this)) built))
          \<subseteq> {''get'', ''post'', ''put'', ''delete'', ''patch''}"
    by (rule verbs_lower)
next
  assume "valid (validate this)"
  then show "\<exists>chains. map (buildMiddlewareChain this) (routes (config this)) = map Inr chains"
    by (rule valid_builds)
qed

text \<open>The scenario with everything registered, applied to an empty surface.\<close>

theorem apply_registers_routes_in_table_order_witness:
  "valid (validate guardedRouter)
   \<and> routes (config guardedRouter) = [publicRoute, adminRoute]
   \<and> applyToExpress guardedRouter freshSurface =
       (Inr \<lparr>objectId = 0,
             calls = [\<lparr>verb = ''get'', pathArg = ''/public'', middlewareArgs = [],
                       handlerArg = Function 10\<rparr>,
                      \<lparr>verb = ''post'', pathArg = ''/admin'',
                       middlewareArgs = [Resolved 1, Resolved 2, FactoryResult 3 [''admin'']],
                       handlerArg = Function 11\<rparr>]\<rparr>,
        \<lparr>surface =
           \<lparr>objectId = 0,
            calls = [\<lparr>verb = ''get'', pathArg = ''/public'', middlewareArgs = [],
                      handlerArg = Function 10\<rparr>,
                     \<lparr>verb = ''post'', pathArg = ''/admin'',
                      middlewareArgs = [Resolved 1, Resolved 2, FactoryResult 3 [''admin'']],
                      handlerArg = Function 11\<rparr>]\<rparr>,
         chainBuilderCalls = [publicRoute, adminRoute]\<rparr>)
   \<and> applyToHono guardedRouter freshSurface = applyToExpress guardedRouter freshSurface"
proof -
  have v: "valid (validate guardedRouter)"
    by (simp add: validate_def guardedRouter_def scenarioRouter_def scenarioConfig_def
        publicRoute_def adminRoute_def routerDefs)
  have rs: "routes (config guardedRouter) = [publicRoute, adminRoute]"
    by (simp add: guardedRouter_def scenarioRouter_def scenarioConfig_def routerDefs)
  have b: "map (buildMiddlewareChain guardedRouter) (routes (config guardedRouter))
             = map Inr [[], [Resolved 1, Resolved 2, FactoryResult 3 [''admin'']]]"
    by (simp add: buildMiddlewareChain_def chainMiddlewares_def chainRoles_def guardedRouter_def
        scenarioRouter_def scenarioConfig_def publicRoute_def adminRoute_def routerDefs)
  note t = apply_registers_routes_in_table_order
      [where this = guardedRouter and r = freshSurface
         and built = "[[], [Resolved 1, Resolved 2, FactoryResult 3 [''admin'']]]"]
  from t b have e: "applyToExpress guardedRouter freshSurface =
        (Inr (freshSurface\<lparr>calls := calls freshSurface @ map2 callFor (routes (config guardedRouter))
                 [[], [Resolved 1, Resolved 2, FactoryResult 3 [''admin'']]]\<rparr>),
         \<lparr>surface = freshSurface\<lparr>calls := calls freshSurface @ map2 callFor (routes (config guardedRouter))
                 [[], [Resolved 1, Resolved 2, FactoryResult 3 [''admin'']]]\<rparr>,
          chainBuilderCalls = routes (config guardedRouter)\<rparr>)"
    and h: "applyToHono guardedRouter freshSurface =
        (Inr (freshSurface\<lparr>calls := calls freshSurface @ map2 callFor (routes (config guardedRouter))
                 [[], [Resolved 1, Resolved 2, FactoryResult 3 [''admin'']]]\<rparr>),
         \<lparr>surface = freshSurface\<lparr>calls := calls freshSurface @ map2 callFor (routes (config guardedRouter))
                 [[], [Resolved 1, Resolved 2, FactoryResult 3 [''admin'']]]\<rparr>,
          chainBuilderCalls = routes (config guardedRouter)\<rparr>)"
    by blast+
  have c: "freshSurface\<lparr>calls := calls freshSurface @ map2 callFor [publicRoute, adminRoute]
                 [[], [Resolved 1, Resolved 2, FactoryResult 3 [''admin'']]]\<rparr>
      = \<lparr>objectId = 0,
             calls = [\<lparr>verb = ''get'', pathArg = ''/public'', middlewareArgs = [],
                       handlerArg = Function 10\<rparr>,
                      \<lparr>verb = ''post'', pathArg = ''/admin'',
                       middlewareArgs = [Resolved 1, Resolved 2, FactoryResult 3 [''admin'']],
                       handlerArg = Function 11\<rparr>]\<rparr>"
    by (simp add: freshSurface_def callFor_def publicRoute_def adminRoute_def lower_strings)
  from v rs e h c show ?thesis
    by simp
qed

text \<open>
  Claim C2, as the code has it. Neither apply method calls \<open>validate\<close>. When the
  routes before a route have chains that build and handlers that are functions, and
  that route's chain names an unregistered middleware, the apply has registered the
  routes before it, in table order, when it throws the chain builder's error for the
  first unregistered name of that route: one name, not a list of the validation
  failures; the routes after it are not registered. Whenever some route's chain
  names an unregistered middleware, the report is invalid and the apply throws
  instead of returning. What an apply does when only a handler is at fault is not
  stated here.
\<close>

theorem apply_stops_at_first_unresolved_route:
  "(routes (config this) = pre @ route # post
      \<and> map (buildMiddlewareChain this) pre = map Inr built
      \<and> (\<forall>p\<in>set pre. isFunction (handler p))
      \<and> chainMiddlewares (config this) route = before @ n # after
      \<and> map (middlewareRegistry this) before = map Some fs
      \<and> middlewareRegistry this n = None
    \<longrightarrow> applyToExpress this r =
          (Inl (Error (notRegistered n)),
           \<lparr>surface = r\<lparr>calls := calls r @ map2 callFor pre built\<rparr>,
            chainBuilderCalls = pre @ [route]\<rparr>)
        \<and> applyToHono this r =
          (Inl (Error (notRegistered n)),
           \<lparr>surface = r\<lparr>calls := calls r @ map2 callFor pre built\<rparr>,
            chainBuilderCalls = pre @ [route]\<rparr>))
   \<and> (route \<in> set (routes (config this))
      \<and> n \<in> set (chainMiddlewares (config this) route)
      \<and> middlewareRegistry this n = None
    \<longrightarrow> \<not> valid (validate this)
        \<and> (\<exists>e. fst (applyToExpress this r) = Inl e)
        \<and> (\<exists>e. fst (applyToHono this r) = Inl e))"
proof (intro conjI impI)
  assume a: "routes (config this) = pre @ route # post
      \<and> map (buildMiddlewareChain this) pre = map Inr built
      \<and> (\<forall>p\<in>set pre. isFunction (handler p))
      \<and> chainMiddlewares (config this) route = before @ n # after
      \<and> map (middlewareRegistry this) before = map Some fs
      \<and> middlewareRegistry this n = None"
  then have e: "buildMiddlewareChain this route = Inl (Error (notRegistered n))"
    using buildMiddlewareChain_throws [of this route before n after fs] by simp
  from a have rs: "routes (config this) = pre @ route # post"
    and b: "map (buildMiddlewareChain this) pre = map Inr built" by simp_all
  from applyToExpress_stops [OF rs b e]
  show x: "applyToExpress this r =
          (Inl (Error (notRegistered n)),
           \<lparr>surface = r\<lparr>calls := calls r @ map2 callFor pre built\<rparr>,
            chainBuilderCalls = pre @ [route]\<rparr>)" .
  then show "applyToHono this r =
          (Inl (Error (notRegistered n)),
           \<lparr>surface = r\<lparr>calls := calls r @ map2 callFor pre built\<rparr>,
            chainBuilderCalls = pre @ [route]\<rparr>)"
    by (simp add: applyToHono_eq)
next
  assume a: "route \<in> set (routes (config this))
      \<and> n \<in> set (chainMiddlewares (config this) route)
      \<and> middlewareRegistry this n = None"
  then show "\<not> valid (validate this)"
    using unresolved_route_invalid [of route this n] by simp
  from a show t: "\<exists>e. fst (applyToExpress this r) = Inl e"
    using unresolved_route_throws [of route this n r] by simp
  then show "\<exists>e. fst (applyToHono this r) = Inl e"
    by (simp add: applyToHono_eq)
qed

text \<open>
  The scenario with nothing registered: \<open>GET /public\<close> is registered, then
  \<open>POST /admin\<close> throws on \<open>logging\<close>.
\<close>

theorem apply_stops_at_first_unresolved_route_witness:
  "routes (config bareRouter) = [publicRoute, adminRoute]
   \<and> isFunction (handler publicRoute)
   \<and> chainMiddlewares (config bareRouter) adminRoute = [''logging'', ''auth'']
   \<and> middlewareRegistry bareRouter ''logging'' = None
   \<and> \<not> valid (validate bareRouter)
   \<and> applyToExpress bareRouter freshSurface =
       (Inl (Error (notRegistered ''logging'')),
        \<lparr>surface = \<lparr>objectId = 0,
                    calls = [\<lparr>verb = ''get'', pathArg = ''/public'', middlewareArgs = [],
                              handlerArg = Function 10\<rparr>]\<rparr>,
         chainBuilderCalls = [publicRoute, adminRoute]\<rparr>)
   \<and> applyToHono bareRouter freshSurface = applyToExpress bareRouter freshSurface"
proof -
  have rs: "routes (config bareRouter) = [publicRoute, adminRoute]"
    by (simp add: bareRouter_def scenarioConfig_def routerDefs)
  have f: "isFunction (handler publicRoute)"
    by (simp add: publicRoute_def)
  have ns: "chainMiddlewares (config bareRouter) adminRoute = [''logging'', ''auth'']"
    "middlewareRegistry bareRouter ''logging'' = None"
    by (simp_all add: chainMiddlewares_def bareRouter_def scenarioConfig_def adminRoute_def routerDefs)
  have 1: "routes (config bareRouter) = [publicRoute] @ adminRoute # []
      \<and> map (buildMiddlewareChain bareRouter) [publicRoute] = map Inr [[]]
      \<and> (\<forall>p\<in>set [publicRoute]. isFunction (handler p))
      \<and> chainMiddlewares (config bareRouter) adminRoute = [] @ ''logging'' # [''auth'']
      \<and> map (middlewareRegistry bareRouter) [] = map Some []
      \<and> middlewareRegistry bareRouter ''logging'' = None"
    by (simp add: buildMiddlewareChain_def chainMiddlewares_def chainRoles_def bareRouter_def
        scenarioConfig_def publicRoute_def adminRoute_def routerDefs)
  have 2: "adminRoute \<in> set (routes (config bareRouter))
      \<and> ''logging'' \<in> set (chainMiddlewares (config bareRouter) adminRoute)
      \<and> middlewareRegistry bareRouter ''logging'' = None"
    using rs ns by simp
  note t = apply_stops_at_first_unresolved_route
      [where this = bareRouter and r = freshSurface and pre = "[publicRoute]" and route = adminRoute
         and post = "[]" and built = "[[]]" and before = "[]" and n = "''logging''"
         and after = "[''auth'']" and fs = "[]"]
  from t 1 have e1: "applyToExpress bareRouter freshSurface =
          (Inl (Error (notRegistered ''logging'')),
           \<lparr>surface = freshSurface\<lparr>calls := calls freshSurface @ map2 callFor [publicRoute] [[]]\<rparr>,
            chainBuilderCalls = [publicRoute] @ [adminRoute]\<rparr>)"
    and h1: "applyToHono bareRouter freshSurface =
          (Inl (Error (notRegistered ''logging'')),
           \<lparr>surface = freshSurface\<lparr>calls := calls freshSurface @ map2 callFor [publicRoute] [[]]\<rparr>,
            chainBuilderCalls = [publicRoute] @ [adminRoute]\<rparr>)"
    by blast+
  from t 2 have v: "\<not> valid (validate bareRouter)"
    by blast
  have c: "freshSurface\<lparr>calls := calls freshSurface @ map2 callFor [publicRoute] [[]]\<rparr>
      = \<lparr>objectId = 0,
         calls = [\<lparr>verb = ''get'', pathArg = ''/public'', middlewareArgs = [],
                   handlerArg = Function 10\<rparr>]\<rparr>"
    by (simp add: freshSurface_def callFor_def publicRoute_def lower_strings)
  from rs f ns v e1 h1 c show ?thesis
    by simp
qed

text \<open>
  Claim C2 as stated fails on the scenario with nothing registered: validation finds
  three errors, and the apply has registered \<open>GET /public\<close> when it throws an error
  that names \<open>logging\<close> alone.
\<close>

theorem apply_registers_one_route_then_throws:
  "\<not> valid (validate bareRouter)
   \<and> length (errors (validate bareRouter)) = 3
   \<and> applyToExpress bareRouter freshSurface =
       (Inl (Error (''Middleware '' @ [CHR 0x27] @ ''logging'' @ [CHR 0x27] @ '' not registered'')),
        \<lparr>surface = \<lparr>objectId = 0,
                    calls = [\<lparr>verb = ''get'', pathArg = ''/public'', middlewareArgs = [],
                              handlerArg = Function 10\<rparr>]\<rparr>,
         chainBuilderCalls = [publicRoute, adminRoute]\<rparr>)
   \<and> applyToHono bareRouter freshSurface =
       (Inl (Error (''Middleware '' @ [CHR 0x27] @ ''logging'' @ [CHR 0x27] @ '' not registered'')),
        \<lparr>surface = \<lparr>objectId = 0,
                    calls = [\<lparr>verb = ''get'', pathArg = ''/public'', middlewareArgs = [],
                              handlerArg = Function 10\<rparr>]\<rparr>,
         chainBuilderCalls = [publicRoute, adminRoute]\<rparr>)"
  by (simp add: validate_def applyToExpress_def applyToHono_def buildMiddlewareChain_def
      chainMiddlewares_def chainRoles_def callFor_def lower_strings notRegistered_def
      bareRouter_def scenarioConfig_def publicRoute_def adminRoute_def freshSurface_def routerDefs)

end
